theory Spec2Isabelle
  imports Complex_Main "HOL-Library.Sublist"
begin

section \<open>PiggyCell check-in bot: a shallow embedding of \<^verbatim>\<open>src/checkin.py\<close>\<close>

text \<open>
  The bot is one Python class, \<^verbatim>\<open>PiggyCellBot\<close>. Its methods are embedded as HOL functions
  over an explicit state: the fields of \<^verbatim>\<open>self\<close>, the dictionaries the methods allocate
  and update, the answers the outside world will give (network, clock, random numbers), and
  the trace of effects produced so far (log records, sleeps, HTTP requests).
  Exceptions are values: a block that can raise returns \<open>exn + 'a\<close>, and every
  \<^verbatim>\<open>try/except\<close> of the source is a case distinction on that sum.
\<close>

subsection \<open>Python strings\<close>

text \<open>
  Strings are lists of 8-bit characters. \<^verbatim>\<open>str.lower\<close> is modelled on the ASCII letters,
  \<^verbatim>\<open>sub in s\<close> as a search for a contiguous occurrence.
\<close>

definition startswith :: "string \<Rightarrow> string \<Rightarrow> bool" where
  "startswith s p = (take (length p) s = p)"

fun contains :: "string \<Rightarrow> string \<Rightarrow> bool" where
  "contains [] sub = (sub = [])"
| "contains (c # cs) sub = (startswith (c # cs) sub \<or> contains cs sub)"

definition lower_char :: "char \<Rightarrow> char" where
  "lower_char c =
     (let n = (of_char c :: nat) in if 65 \<le> n \<and> n \<le> 90 then char_of (n + 32) else c)"

definition lower :: "string \<Rightarrow> string" where
  "lower s = map lower_char s"

definition count_char :: "char \<Rightarrow> string \<Rightarrow> nat" where
  "count_char c s = length (filter (\<lambda>x. x = c) s)"

fun split_str :: "char \<Rightarrow> string \<Rightarrow> string list" where
  "split_str sep [] = [[]]"
| "split_str sep (c # cs) =
     (if c = sep then [] # split_str sep cs
      else (case split_str sep cs of [] \<Rightarrow> [[c]] | p # ps \<Rightarrow> (c # p) # ps))"

definition is_space :: "char \<Rightarrow> bool" where
  "is_space c = (let n = (of_char c :: nat) in n = 32 \<or> (9 \<le> n \<and> n \<le> 13) \<or> (28 \<le> n \<and> n \<le> 31))"

definition strip :: "string \<Rightarrow> string" where
  "strip s = rev (dropWhile is_space (rev (dropWhile is_space s)))"

fun str_nat :: "nat \<Rightarrow> string" where
  "str_nat n =
     (if n < 10 then [char_of (48 + n)] else str_nat (n div 10) @ [char_of (48 + n mod 10)])"

declare str_nat.simps [simp del]

definition str_int :: "int \<Rightarrow> string" where
  "str_int i = (if i < 0 then CHR ''-'' # str_nat (nat (- i)) else str_nat (nat i))"

text \<open>
  Python floats are idealised as rationals: \<^verbatim>\<open>f"{x:.1f}"\<close> rounds to the nearest tenth,
  ties to the even tenth, and prints the sign, the integer part and one digit.
\<close>

definition round_half_even :: "rat \<Rightarrow> int" where
  "round_half_even x =
     (let f = \<lfloor>x\<rfloor>; d = x - of_int f in
      if d < 1 / 2 then f else if 1 / 2 < d then f + 1 else if even f then f else f + 1)"

definition fmt1 :: "rat \<Rightarrow> string" where
  "fmt1 x =
     (let t = round_half_even (\<bar>x\<bar> * 10) in
      (if x < 0 then ''-'' else '''') @ str_nat (nat (t div 10)) @ ''.'' @ str_nat (nat (t mod 10)))"

subsection \<open>Exceptions\<close>

text \<open>
  An exception is its class and its message. \<open>RequestException\<close> stands for
  \<^verbatim>\<open>requests.exceptions.RequestException\<close> and its subclasses (timeouts, connection
  errors); \<open>RuntimeError\<close> for any other \<^verbatim>\<open>Exception\<close>.
\<close>

datatype exn_class =
  BinasciiError | JSONDecodeError | UnicodeDecodeError | ValueError | TypeError
  | OverflowError | OSError | KeyError | AttributeError | FileNotFoundError
  | RequestException | RuntimeError

datatype exn = Exn (exn_class: exn_class) (exn_msg: string)

subsection \<open>\<^verbatim>\<open>base64.b64decode\<close>\<close>

text \<open>
  \<^verbatim>\<open>base64.b64decode(s)\<close> on a \<^verbatim>\<open>str\<close> encodes it as ASCII (a \<^verbatim>\<open>ValueError\<close> when it
  cannot) and calls \<^verbatim>\<open>binascii.a2b_base64\<close> in its lenient mode, modelled here after
  CPython's loop: characters outside the alphabet are skipped, a pad character ends the
  input once the current quad holds at least two characters and the pads complete it,
  other pad characters are skipped, and input that ends inside a quad is an error.
\<close>

definition b64_index :: "char \<Rightarrow> nat option" where
  "b64_index c =
     (let n = (of_char c :: nat) in
      if 65 \<le> n \<and> n \<le> 90 then Some (n - 65)
      else if 97 \<le> n \<and> n \<le> 122 then Some (n - 71)
      else if 48 \<le> n \<and> n \<le> 57 then Some (n + 4)
      else if n = 43 then Some 62
      else if n = 47 then Some 63
      else None)"

fun a2b_base64 :: "nat \<Rightarrow> nat \<Rightarrow> nat \<Rightarrow> string \<Rightarrow> string \<Rightarrow> exn + string" where
  "a2b_base64 quad_pos leftchar pads [] out =
     (if quad_pos = 0 then Inr out
      else if quad_pos = 1 then
        Inl (Exn BinasciiError
          ''Invalid base64-encoded string: number of data characters cannot be 1 more than a multiple of 4'')
      else Inl (Exn BinasciiError ''Incorrect padding''))"
| "a2b_base64 quad_pos leftchar pads (c # cs) out =
     (if c = CHR ''='' then
        (if 2 \<le> quad_pos \<and> 4 \<le> quad_pos + (pads + 1) then Inr out
         else a2b_base64 quad_pos leftchar (if 2 \<le> quad_pos then pads + 1 else pads) cs out)
      else
        (case b64_index c of
           None \<Rightarrow> a2b_base64 quad_pos leftchar pads cs out
         | Some v \<Rightarrow>
             (if quad_pos = 0 then a2b_base64 1 v 0 cs out
              else if quad_pos = 1 then
                a2b_base64 2 (v mod 16) 0 cs (out @ [char_of (leftchar * 4 + v div 16)])
              else if quad_pos = 2 then
                a2b_base64 3 (v mod 4) 0 cs (out @ [char_of (leftchar * 16 + v div 4)])
              else a2b_base64 0 0 0 cs (out @ [char_of (leftchar * 64 + v)]))))"

definition b64decode :: "string \<Rightarrow> exn + string" where
  "b64decode s =
     (if \<exists>c \<in> set s. 128 \<le> (of_char c :: nat) then
        Inl (Exn ValueError ''string argument should contain only ASCII characters'')
      else a2b_base64 0 0 0 s [])"

text \<open>The standard encoder, used to state what a fabricated token's segment is.\<close>

definition b64_char :: "nat \<Rightarrow> char" where
  "b64_char v =
     (if v < 26 then char_of (v + 65)
      else if v < 52 then char_of (v + 71)
      else if v < 62 then char_of (v - 4)
      else if v = 62 then CHR ''+''
      else CHR ''/'')"

fun b64encode :: "string \<Rightarrow> string" where
  "b64encode [] = []"
| "b64encode [a] =
     (let x = (of_char a :: nat) in [b64_char (x div 4), b64_char (x mod 4 * 16), CHR ''='', CHR ''=''])"
| "b64encode [a, b] =
     (let x = (of_char a :: nat); y = (of_char b :: nat) in
      [b64_char (x div 4), b64_char (x mod 4 * 16 + y div 16), b64_char (y mod 16 * 4), CHR ''=''])"
| "b64encode (a # b # c # rest) =
     (let x = (of_char a :: nat); y = (of_char b :: nat); z = (of_char c :: nat) in
      [b64_char (x div 4), b64_char (x mod 4 * 16 + y div 16),
       b64_char (y mod 16 * 4 + z div 64), b64_char (z mod 64)] @ b64encode rest)"

definition b64encode_nopad :: "string \<Rightarrow> string" where
  "b64encode_nopad bs = filter (\<lambda>c. c \<noteq> CHR ''='') (b64encode bs)"

subsection \<open>JSON values, timestamps and local time\<close>

datatype pyfloat = Finite rat | Nan | PosInf | NegInf

datatype json =
  JNull | JBool bool | JInt int | JFloat pyfloat | JStr string
  | JList "json list" | JDict "(string \<times> json) list"

text \<open>
  What the program takes from its host: \<^verbatim>\<open>json.loads\<close> on bytes, the local zone's offset
  from UTC (in seconds) in force at an instant (epoch seconds), and
  \<^verbatim>\<open>strftime('%Y-%m-%d')\<close> of a local time.
\<close>

record host =
  json_loads :: "string \<Rightarrow> exn + json"
  utcoffset :: "int \<Rightarrow> int"
  strftime_ymd :: "int \<Rightarrow> string"

text \<open>
  A naive \<^verbatim>\<open>datetime\<close> is the number of microseconds of local wall-clock time counted
  from 1970-01-01T00:00:00; \<^verbatim>\<open>datetime.min\<close> and \<^verbatim>\<open>datetime.max\<close> bound it.
\<close>

definition datetime_min :: int where
  "datetime_min = - 62135596800 * 1000000"

definition datetime_max :: int where
  "datetime_max = 253402300799 * 1000000 + 999999"

definition to_local :: "host \<Rightarrow> int \<Rightarrow> int" where
  "to_local h us = us + utcoffset h (us div 1000000) * 1000000"

fun timestamp_us :: "json \<Rightarrow> exn + int" where
  "timestamp_us (JInt n) = Inr (n * 1000000)"
| "timestamp_us (JBool b) = Inr (if b then 1000000 else 0)"
| "timestamp_us (JFloat (Finite r)) = Inr (round_half_even (r * 1000000))"
| "timestamp_us (JFloat Nan) = Inl (Exn ValueError ''Invalid value NaN (not a number)'')"
| "timestamp_us (JFloat PosInf) = Inl (Exn OverflowError ''timestamp out of range for platform time_t'')"
| "timestamp_us (JFloat NegInf) = Inl (Exn OverflowError ''timestamp out of range for platform time_t'')"
| "timestamp_us JNull = Inl (Exn TypeError ''NoneType object cannot be interpreted as an integer'')"
| "timestamp_us (JStr s) = Inl (Exn TypeError ''str object cannot be interpreted as an integer'')"
| "timestamp_us (JList xs) = Inl (Exn TypeError ''list object cannot be interpreted as an integer'')"
| "timestamp_us (JDict kvs) = Inl (Exn TypeError ''dict object cannot be interpreted as an integer'')"

definition fromtimestamp :: "host \<Rightarrow> json \<Rightarrow> exn + int" where
  "fromtimestamp h v =
     (case timestamp_us v of
        Inl e \<Rightarrow> Inl e
      | Inr us \<Rightarrow>
          (let d = to_local h us in
           if datetime_min \<le> d \<and> d \<le> datetime_max then Inr d
           else Inl (Exn ValueError ''year is out of range'')))"

text \<open>\<^verbatim>\<open>'exp' in token_data\<close> and \<^verbatim>\<open>token_data['exp']\<close>, by the type of the parsed value.\<close>

fun has_exp :: "json \<Rightarrow> exn + bool" where
  "has_exp (JDict kvs) = Inr (''exp'' \<in> set (map fst kvs))"
| "has_exp (JList xs) = Inr (JStr ''exp'' \<in> set xs)"
| "has_exp (JStr s) = Inr (contains s ''exp'')"
| "has_exp JNull = Inl (Exn TypeError ''argument of type NoneType is not iterable'')"
| "has_exp (JBool b) = Inl (Exn TypeError ''argument of type bool is not iterable'')"
| "has_exp (JInt n) = Inl (Exn TypeError ''argument of type int is not iterable'')"
| "has_exp (JFloat f) = Inl (Exn TypeError ''argument of type float is not iterable'')"

fun get_exp :: "json \<Rightarrow> exn + json" where
  "get_exp (JDict kvs) =
     (case map_of kvs ''exp'' of None \<Rightarrow> Inl (Exn KeyError ''exp'') | Some v \<Rightarrow> Inr v)"
| "get_exp (JList xs) = Inl (Exn TypeError ''list indices must be integers or slices, not str'')"
| "get_exp (JStr s) = Inl (Exn TypeError ''string indices must be integers, not str'')"
| "get_exp JNull = Inl (Exn TypeError ''NoneType object is not subscriptable'')"
| "get_exp (JBool b) = Inl (Exn TypeError ''bool object is not subscriptable'')"
| "get_exp (JInt n) = Inl (Exn TypeError ''int object is not subscriptable'')"
| "get_exp (JFloat f) = Inl (Exn TypeError ''float object is not subscriptable'')"

subsection \<open>The bot's state and the outside world\<close>

text \<open>
  An account is the dictionary \<^verbatim>\<open>load_accounts\<close> builds, with exactly the four string
  entries; the methods only read it. The configuration holds the keys the methods look up;
  a key the file may lack is an option, and \<^verbatim>\<open>self.config['headers']\<close> is a reference to
  a dictionary object on the heap.
\<close>

record account =
  name :: string
  session_token :: string
  cookies :: string
  description :: string

record config =
  retry_times :: "int option"
  retry_delay :: "int option"
  headers :: "nat option"
  api_url :: "string option"

type_synonym pydict = "(string \<times> string) list"

text \<open>
  A response as the program reads it: the status, \<^verbatim>\<open>str(response.json())\<close> (or \<open>None\<close>
  when \<^verbatim>\<open>response.json()\<close> raises \<^verbatim>\<open>json.JSONDecodeError\<close>), and \<^verbatim>\<open>response.text\<close>.
\<close>

record response =
  status_code :: int
  body_json :: "string option"
  body_text :: string

datatype reply = Resp response | Raises exn

datatype level = DEBUG | INFO | WARNING | ERROR

text \<open>
  The effects. \<open>Get url headers proxy timeout\<close> and \<open>Post url headers date proxy timeout\<close>
  are one call of \<^verbatim>\<open>session.get\<close> and \<^verbatim>\<open>session.post\<close>; the POST's JSON body is
  \<^verbatim>\<open>{"0": {"json": {"userDate": date}}}\<close>.
\<close>

datatype event =
  Log level string
  | Print string
  | Sleep rat
  | Get string pydict "string option" nat
  | Post string pydict string "string option" nat

text \<open>
  The state threaded through every method: the fields of \<^verbatim>\<open>self\<close>, the heap of
  dictionary objects (an address is an index), what the world will answer next (the
  \<open>n\<close>-th HTTP reply, random draw, answer of \<^verbatim>\<open>UserAgent().random\<close>, with \<open>None\<close>
  when it raises, and clock reading in microseconds since the epoch), and the trace.
\<close>

record state =
  config :: config
  accounts :: "account list"
  proxies :: "string list"
  heap :: "pydict list"
  net :: "nat \<Rightarrow> reply"
  rand :: "nat \<Rightarrow> nat"
  ua :: "nat \<Rightarrow> string option"
  clock :: "nat \<Rightarrow> int"
  trace :: "event list"

definition logger :: "level \<Rightarrow> string \<Rightarrow> state \<Rightarrow> state" where
  "logger lvl msg s = s\<lparr>trace := trace s @ [Log lvl msg]\<rparr>"

definition sleep :: "rat \<Rightarrow> state \<Rightarrow> state" where
  "sleep d s = s\<lparr>trace := trace s @ [Sleep d]\<rparr>"

definition next_rand :: "state \<Rightarrow> nat \<times> state" where
  "next_rand s = (rand s 0, s\<lparr>rand := \<lambda>n. rand s (Suc n)\<rparr>)"

definition random_choice :: "'a list \<Rightarrow> state \<Rightarrow> 'a \<times> state" where
  "random_choice xs s = (case next_rand s of (r, s') \<Rightarrow> (xs ! (r mod length xs), s'))"

definition random_uniform :: "rat \<Rightarrow> rat \<Rightarrow> state \<Rightarrow> rat \<times> state" where
  "random_uniform a b s =
     (case next_rand s of
        (r, s') \<Rightarrow> (a + (b - a) * (of_nat (r mod 2 ^ 53) / 2 ^ 53), s'))"

definition datetime_now :: "host \<Rightarrow> state \<Rightarrow> int \<times> state" where
  "datetime_now h s = (to_local h (clock s 0), s\<lparr>clock := \<lambda>n. clock s (Suc n)\<rparr>)"

definition session_get ::
  "string \<Rightarrow> pydict \<Rightarrow> string option \<Rightarrow> nat \<Rightarrow> state \<Rightarrow> reply \<times> state" where
  "session_get url hdrs proxy timeout s =
     (net s 0, s\<lparr>net := \<lambda>n. net s (Suc n), trace := trace s @ [Get url hdrs proxy timeout]\<rparr>)"

definition session_post ::
  "string \<Rightarrow> pydict \<Rightarrow> string \<Rightarrow> string option \<Rightarrow> nat \<Rightarrow> state \<Rightarrow> reply \<times> state" where
  "session_post url hdrs date proxy timeout s =
     (net s 0,
      s\<lparr>net := \<lambda>n. net s (Suc n), trace := trace s @ [Post url hdrs date proxy timeout]\<rparr>)"

subsection \<open>Dictionary objects\<close>

fun dict_set :: "string \<Rightarrow> string \<Rightarrow> pydict \<Rightarrow> pydict" where
  "dict_set k v [] = [(k, v)]"
| "dict_set k v ((k', v') # kvs) =
     (if k' = k then (k, v) # kvs else (k', v') # dict_set k v kvs)"

text \<open>\<^verbatim>\<open>d.copy()\<close> allocates a new object; \<^verbatim>\<open>d[k] = v\<close> updates the object \<open>d\<close> refers to.\<close>

definition dict_copy :: "nat \<Rightarrow> state \<Rightarrow> nat \<times> state" where
  "dict_copy a s = (length (heap s), s\<lparr>heap := heap s @ [heap s ! a]\<rparr>)"

definition dict_setitem :: "nat \<Rightarrow> string \<Rightarrow> string \<Rightarrow> state \<Rightarrow> state" where
  "dict_setitem a k v s = s\<lparr>heap := (heap s)[a := dict_set k v (heap s ! a)]\<rparr>"

text \<open>
  A state is well formed when the configuration's reference points into the heap, as every
  reference of a running Python program does.
\<close>

definition wf_state :: "state \<Rightarrow> bool" where
  "wf_state s = (case headers (config s) of None \<Rightarrow> True | Some a \<Rightarrow> a < length (heap s))"

subsection \<open>\<^verbatim>\<open>get_random_proxy\<close>, \<^verbatim>\<open>get_random_user_agent\<close>\<close>

definition get_random_proxy :: "state \<Rightarrow> string option \<times> state" where
  "get_random_proxy s =
     (if proxies s = [] then (None, s)
      else (case random_choice (proxies s) s of (proxy_url, s') \<Rightarrow> (Some proxy_url, s')))"

definition user_agents :: "string list" where
  "user_agents =
     [''Mozilla/5.0 (Macintosh; Intel Mac OS X 10_15_7) AppleWebKit/537.36 (KHTML, like Gecko) Chrome/141.0.0.0 Safari/537.36'',
      ''Mozilla/5.0 (Windows NT 10.0; Win64; x64) AppleWebKit/537.36 (KHTML, like Gecko) Chrome/141.0.0.0 Safari/537.36'',
      ''Mozilla/5.0 (Macintosh; Intel Mac OS X 10_15_7) AppleWebKit/605.1.15 (KHTML, like Gecko) Version/17.1 Safari/605.1.15'',
      ''Mozilla/5.0 (Windows NT 10.0; Win64; x64; rv:121.0) Gecko/20100101 Firefox/121.0'',
      ''Mozilla/5.0 (Macintosh; Intel Mac OS X 10.15; rv:121.0) Gecko/20100101 Firefox/121.0'']"

definition get_random_user_agent :: "state \<Rightarrow> string \<times> state" where
  "get_random_user_agent s =
     (case ua s 0 of
        Some u \<Rightarrow> (u, s\<lparr>ua := \<lambda>n. ua s (Suc n)\<rparr>)
      | None \<Rightarrow> random_choice user_agents (s\<lparr>ua := \<lambda>n. ua s (Suc n)\<rparr>))"

text \<open>
  The first statements of both request blocks: copy the base headers, set a fresh
  User-Agent, build the cookie. Returns the new dictionary's address and the User-Agent.
\<close>

definition cookie_of :: "account \<Rightarrow> string" where
  "cookie_of a =
     ''__Secure-authjs.session-token='' @ session_token a
       @ (if cookies a \<noteq> [] then ''; '' @ cookies a else [])"

definition build_headers :: "account \<Rightarrow> state \<Rightarrow> (exn + nat \<times> string) \<times> state" where
  "build_headers a s =
     (case headers (config s) of
        None \<Rightarrow> (Inl (Exn KeyError ''headers''), s)
      | Some base \<Rightarrow>
          (case dict_copy base s of
             (hdrs, s0) \<Rightarrow>
               (case get_random_user_agent s0 of
                  (user_agent, s1) \<Rightarrow>
                    (Inr (hdrs, user_agent),
                     dict_setitem hdrs ''cookie'' (cookie_of a)
                       (dict_setitem hdrs ''user-agent'' user_agent s1)))))"

subsection \<open>\<^verbatim>\<open>test_token_with_api\<close>\<close>

definition test_token_with_api :: "host \<Rightarrow> account \<Rightarrow> state \<Rightarrow> bool \<times> state" where
  "test_token_with_api h a s =
     (case build_headers a s of
        (Inl e, s1) \<Rightarrow>
          (True, logger WARNING
             (''API test failed for '' @ name a @ '': '' @ exn_msg e @ '', assuming valid'') s1)
      | (Inr (hdrs, user_agent), s1) \<Rightarrow>
          (case get_random_proxy s1 of
             (proxy, s2) \<Rightarrow>
               (case session_get ''https://app.piggycell.io/api/trpc/user.me?batch=1''
                       (heap s2 ! hdrs) proxy 10 s2 of
                  (Raises e, s3) \<Rightarrow>
                    (True, logger WARNING
                       (''API test failed for '' @ name a @ '': '' @ exn_msg e @ '', assuming valid'') s3)
                | (Resp r, s3) \<Rightarrow>
                    (if status_code r = 200 then
                       (True, logger INFO (''Account '' @ name a @ '' token valid (API test)'') s3)
                     else
                       (False, logger WARNING
                          (''Account '' @ name a @ '' token possibly invalid (status ''
                             @ str_int (status_code r) @ '')'') s3)))))"

subsection \<open>\<^verbatim>\<open>check_token_validity\<close>\<close>

definition is_placeholder :: "string \<Rightarrow> bool" where
  "is_placeholder tok =
     (tok = [] \<or> startswith tok ''your'' \<or> contains (lower tok) ''session_token'')"

definition pad_payload :: "string \<Rightarrow> string" where
  "pad_payload payload = payload @ replicate (4 - length payload mod 4) CHR ''=''"

definition timedelta_minutes :: "int \<Rightarrow> int" where
  "timedelta_minutes m = m * 60 * 1000000"

definition total_seconds :: "int \<Rightarrow> rat" where
  "total_seconds d = of_int d / 1000000"

text \<open>The inner \<^verbatim>\<open>try\<close> block: decode the padded payload, parse it, look at \<^verbatim>\<open>exp\<close>.\<close>

definition inspect_payload :: "host \<Rightarrow> account \<Rightarrow> string \<Rightarrow> state \<Rightarrow> (exn + bool) \<times> state" where
  "inspect_payload h a payload s =
     (case b64decode payload of
        Inl e \<Rightarrow> (Inl e, s)
      | Inr decoded \<Rightarrow>
     (case json_loads h decoded of
        Inl e \<Rightarrow> (Inl e, s)
      | Inr token_data \<Rightarrow>
     (case has_exp token_data of
        Inl e \<Rightarrow> (Inl e, s)
      | Inr False \<Rightarrow>
          (Inr True, logger INFO (''Account '' @ name a @ '' token valid but no expiry info'') s)
      | Inr True \<Rightarrow>
     (case get_exp token_data of
        Inl e \<Rightarrow> (Inl e, s)
      | Inr exp_timestamp \<Rightarrow>
     (case fromtimestamp h exp_timestamp of
        Inl e \<Rightarrow> (Inl e, s)
      | Inr exp_datetime \<Rightarrow>
     (case datetime_now h s of
        (current_time, s1) \<Rightarrow>
          (if exp_datetime \<le> current_time + timedelta_minutes 30 then
             (Inr False, logger WARNING
                (''Account '' @ name a @ '' token will expire within 30 minutes'') s1)
           else
             (let remaining = exp_datetime - current_time;
                  hours = total_seconds remaining / 3600
              in (Inr True, logger INFO
                    (''Account '' @ name a @ '' token valid, remaining: '' @ fmt1 hours @ '' hours'')
                    s1)))))))))"

text \<open>
  The body of the outer \<^verbatim>\<open>try\<close>. The branch for fewer than two parts runs off the end of
  the method, which returns \<^verbatim>\<open>None\<close>; the caller tests it with \<^verbatim>\<open>not\<close>, so it counts as
  \<open>False\<close>.
\<close>

definition check_token_body :: "host \<Rightarrow> account \<Rightarrow> state \<Rightarrow> (exn + bool) \<times> state" where
  "check_token_body h a s =
     (let tok = session_token a in
      if is_placeholder tok then
        (Inr False, logger WARNING
           (''Account '' @ name a @ '': token is placeholder, please update real session_token'') s)
      else if CHR ''.'' \<in> set tok \<and> 2 \<le> count_char CHR ''.'' tok then
        (let parts = split_str CHR ''.'' tok in
         if 2 \<le> length parts then
           (case inspect_payload h a (pad_payload (parts ! 1)) s of
              (Inl e, s1) \<Rightarrow>
                (if exn_class e = BinasciiError \<or> exn_class e = JSONDecodeError then
                   (case test_token_with_api h a s1 of (b, s2) \<Rightarrow> (Inr b, s2))
                 else (Inl e, s1))
            | (Inr b, s1) \<Rightarrow> (Inr b, s1))
         else (Inr False, s))
      else (case test_token_with_api h a s of (b, s1) \<Rightarrow> (Inr b, s1)))"

definition check_token_validity :: "host \<Rightarrow> account \<Rightarrow> state \<Rightarrow> bool \<times> state" where
  "check_token_validity h a s =
     (case check_token_body h a s of
        (Inr b, s1) \<Rightarrow> (b, s1)
      | (Inl e, s1) \<Rightarrow>
          (True, logger ERROR (''Error checking token of '' @ name a @ '': '' @ exn_msg e) s1))"

subsection \<open>\<^verbatim>\<open>sign_in\<close>\<close>

definition already_checked_phrases :: "string list" where
  "already_checked_phrases =
     [''Already checked in today'', ''already checked in today'',
      ''Already checked in'', ''already checked in'']"

definition account_desc :: "account \<Rightarrow> string" where
  "account_desc a = (if description a \<noteq> [] then '' ('' @ description a @ '')'' else [])"

text \<open>What the branch for status 200 logs.\<close>

definition on_200 :: "account \<Rightarrow> response \<Rightarrow> event list" where
  "on_200 a r =
     (case body_json r of
        Some response_text \<Rightarrow>
          [Log DEBUG (''Response text: '' @ response_text)]
          @ (case find (\<lambda>phrase. contains response_text phrase) already_checked_phrases of
               Some phrase \<Rightarrow>
                 [Log DEBUG (''Detected already checked-in phrase: '' @ phrase),
                  Log INFO (''Account '' @ name a @ account_desc a
                             @ '' already manually checked in today'')]
             | None \<Rightarrow>
                 [Log INFO (''Account '' @ name a @ account_desc a @ '' check-in successful'')])
          @ [Log INFO (''Response content: '' @ response_text)]
      | None \<Rightarrow>
          [Log INFO (''Account '' @ name a @ account_desc a @ '' check-in successful''),
           Log INFO (''Response content: '' @ body_text r)])"

text \<open>
  The body of the \<^verbatim>\<open>try\<close> of one attempt: \<open>Inr b\<close> when it returns \<open>b\<close>, \<open>Inl e\<close> when it
  raises \<open>e\<close>.
\<close>

definition try_request :: "host \<Rightarrow> account \<Rightarrow> nat \<Rightarrow> state \<Rightarrow> (exn + bool) \<times> state" where
  "try_request h a attempt s =
     (case build_headers a s of
        (Inl e, s1) \<Rightarrow> (Inl e, s1)
      | (Inr (hdrs, user_agent), s1) \<Rightarrow>
     (case datetime_now h s1 of
        (now, s2) \<Rightarrow>
     (case get_random_proxy s2 of
        (proxy, s3) \<Rightarrow>
     (let today = strftime_ymd h now;
          proxy_info = (case proxy of None \<Rightarrow> ''no proxy'' | Some proxy_url \<Rightarrow> ''proxy: '' @ proxy_url);
          s4 = (if attempt = 0 then
                  logger INFO
                    (''Account '' @ name a @ account_desc a @ '' starting check-in, ''
                       @ ''User-Agent: '' @ take 50 user_agent @ ''..., '' @ proxy_info) s3
                else s3)
      in
     (case api_url (config s4) of
        None \<Rightarrow> (Inl (Exn KeyError ''api_url''), s4)
      | Some url \<Rightarrow>
     (case session_post url (heap s4 ! hdrs) today proxy 30 s4 of
        (Raises e, s5) \<Rightarrow> (Inl e, s5)
      | (Resp r, s5) \<Rightarrow>
          (if status_code r = 200 then (Inr True, s5\<lparr>trace := trace s5 @ on_200 a r\<rparr>)
           else
             (Inr False,
              logger ERROR (''Response: '' @ body_text r)
                (logger ERROR
                   (''Account '' @ name a @ account_desc a @ '' check-in failed, status: ''
                      @ str_int (status_code r)) s5)))))))))"

datatype step = Return bool | Continue

definition attempt_once :: "host \<Rightarrow> account \<Rightarrow> int \<Rightarrow> int \<Rightarrow> nat \<Rightarrow> state \<Rightarrow> step \<times> state" where
  "attempt_once h a rt rd attempt s =
     (case try_request h a attempt s of
        (Inr b, s1) \<Rightarrow> (Return b, s1)
      | (Inl e, s1) \<Rightarrow>
          (if exn_class e = RequestException then
             (if int attempt < rt - 1 then
                (Continue,
                 sleep (of_int rd)
                   (logger WARNING
                      (''Account '' @ name a @ '' attempt '' @ str_nat (attempt + 1) @ '' failed: ''
                         @ exn_msg e @ '', retrying in '' @ str_int rd @ ''s...'') s1))
              else
                (Return False,
                 logger ERROR
                   (''Account '' @ name a @ '' request failed after '' @ str_int rt @ '' retries: ''
                      @ exn_msg e) s1))
           else
             (Return False,
              logger ERROR
                (''Unknown error during check-in for '' @ name a @ '': '' @ exn_msg e) s1)))"

text \<open>\<^verbatim>\<open>for attempt in range(retry_times)\<close>, and the \<^verbatim>\<open>return False\<close> after the loop.\<close>

fun attempts :: "host \<Rightarrow> account \<Rightarrow> int \<Rightarrow> int \<Rightarrow> nat list \<Rightarrow> state \<Rightarrow> bool \<times> state" where
  "attempts h a rt rd [] s = (False, s)"
| "attempts h a rt rd (attempt # rest) s =
     (case attempt_once h a rt rd attempt s of
        (Return b, s1) \<Rightarrow> (b, s1)
      | (Continue, s1) \<Rightarrow> attempts h a rt rd rest s1)"

definition sign_in :: "host \<Rightarrow> account \<Rightarrow> state \<Rightarrow> bool \<times> state" where
  "sign_in h a s =
     (case check_token_validity h a s of
        (False, s1) \<Rightarrow>
          (False, logger ERROR
             (''Account '' @ name a @ '' token invalid or expiring soon, skipping'') s1)
      | (True, s1) \<Rightarrow>
          (let rt = (case retry_times (config s1) of None \<Rightarrow> 3 | Some n \<Rightarrow> n);
               rd = (case retry_delay (config s1) of None \<Rightarrow> 5 | Some n \<Rightarrow> n)
           in attempts h a rt rd [0..<nat rt] s1))"

subsection \<open>\<^verbatim>\<open>sign_in_all_accounts\<close>\<close>

fun accounts_loop :: "host \<Rightarrow> account list \<Rightarrow> nat \<Rightarrow> state \<Rightarrow> nat \<times> state" where
  "accounts_loop h [] success_count s = (success_count, s)"
| "accounts_loop h (a # rest) success_count s =
     (case sign_in h a s of
        (ok, s1) \<Rightarrow>
          (case random_uniform 2 5 s1 of
             (d, s2) \<Rightarrow>
               accounts_loop h rest (if ok then success_count + 1 else success_count) (sleep d s2)))"

definition sign_in_all_accounts :: "host \<Rightarrow> state \<Rightarrow> state" where
  "sign_in_all_accounts h s =
     (if accounts s = [] then logger WARNING ''No accounts found'' s
      else
        (case accounts_loop h (accounts s) 0
                (logger INFO
                   (''Starting check-in for '' @ str_nat (length (accounts s)) @ '' accounts'') s) of
           (success_count, s1) \<Rightarrow>
             logger INFO
               (''Check-in complete, success: '' @ str_nat success_count @ ''/''
                  @ str_nat (length (accounts s1))) s1))"

subsection \<open>Construction: \<^verbatim>\<open>load_config\<close>, \<^verbatim>\<open>load_accounts\<close>, \<^verbatim>\<open>load_proxies\<close>, \<^verbatim>\<open>__init__\<close>\<close>

text \<open>
  Reading a file either raises (\<open>FileNotFoundError\<close> from \<^verbatim>\<open>open\<close>, \<open>JSONDecodeError\<close>
  from \<^verbatim>\<open>json.load\<close>, or something else) or yields the parsed content: the configuration
  object, the \<^verbatim>\<open>accounts\<close> entry of the accounts file (\<open>None\<close> when the key is absent),
  the lines of the proxy file.
\<close>

datatype 'a file_read = Unreadable exn | Loaded 'a

record config_json =
  j_retry_times :: "int option"
  j_retry_delay :: "int option"
  j_headers :: "pydict option"
  j_api_url :: "string option"

record raw_account =
  r_name :: "string option"
  r_session_token :: "string option"
  r_enabled :: "bool option"
  r_cookies :: "string option"
  r_description :: "string option"

record files =
  config_file :: "config_json file_read"
  accounts_file :: "raw_account list option file_read"
  proxy_file :: "string list file_read"

text \<open>How a method call ends when it does not return: an uncaught exception or \<^verbatim>\<open>sys.exit\<close>.\<close>

datatype abort = Uncaught exn | SystemExit int

definition print :: "string \<Rightarrow> state \<Rightarrow> state" where
  "print msg s = s\<lparr>trace := trace s @ [Print msg]\<rparr>"

text \<open>
  \<^verbatim>\<open>self.logger\<close> is assigned by \<^verbatim>\<open>setup_logging\<close>. An \<^verbatim>\<open>except\<close> clause that evaluates
  \<^verbatim>\<open>self.logger.error(...)\<close> before that raises \<open>AttributeError\<close>; \<open>has_logger\<close> says
  whether the attribute exists when \<^verbatim>\<open>load_config\<close> runs.
\<close>

definition logger_error :: "bool \<Rightarrow> string \<Rightarrow> state \<Rightarrow> (abort + unit) \<times> state" where
  "logger_error has_logger msg s =
     (if has_logger then (Inr (), logger ERROR msg s)
      else (Inl (Uncaught (Exn AttributeError ''PiggyCellBot object has no attribute logger'')), s))"

definition load_config ::
  "bool \<Rightarrow> string \<Rightarrow> files \<Rightarrow> state \<Rightarrow> (abort + config_json) \<times> state" where
  "load_config has_logger config_path f s =
     (case config_file f of
        Loaded c \<Rightarrow> (Inr c, s)
      | Unreadable e \<Rightarrow>
          (if exn_class e = FileNotFoundError then
             (case logger_error has_logger (''Config file does not exist: '' @ config_path) s of
                (Inl ab, s1) \<Rightarrow> (Inl ab, s1)
              | (Inr u, s1) \<Rightarrow> (Inl (SystemExit 1), s1))
           else if exn_class e = JSONDecodeError then
             (case logger_error has_logger (''Config file format error: '' @ exn_msg e) s of
                (Inl ab, s1) \<Rightarrow> (Inl ab, s1)
              | (Inr u, s1) \<Rightarrow> (Inl (SystemExit 1), s1))
           else (Inl (Uncaught e), s)))"

fun collect_accounts :: "raw_account list \<Rightarrow> exn + account list" where
  "collect_accounts [] = Inr []"
| "collect_accounts (r # rs) =
     (if (case r_enabled r of None \<Rightarrow> True | Some b \<Rightarrow> b) then
        (case r_name r of
           None \<Rightarrow> Inl (Exn KeyError ''name'')
         | Some n \<Rightarrow>
             (case r_session_token r of
                None \<Rightarrow> Inl (Exn KeyError ''session_token'')
              | Some t \<Rightarrow>
                  (case collect_accounts rs of
                     Inl e \<Rightarrow> Inl e
                   | Inr acc \<Rightarrow>
                       Inr (\<lparr>name = n, session_token = t,
                             cookies = (case r_cookies r of None \<Rightarrow> [] | Some c \<Rightarrow> c),
                             description = (case r_description r of None \<Rightarrow> [] | Some d \<Rightarrow> d)\<rparr>
                            # acc))))
      else collect_accounts rs)"

definition load_accounts :: "files \<Rightarrow> state \<Rightarrow> (abort + account list) \<times> state" where
  "load_accounts f s =
     (let format_error = (\<lambda>e.
            (Inr [], print (''Warning: JSON account config file format error: '' @ exn_msg e) s))
      in
      case accounts_file f of
        Unreadable e \<Rightarrow>
          (if exn_class e = FileNotFoundError then
             (Inr [],
              print ''Error: Account config file does not exist, please create config/checkin-acc.json'' s)
           else if exn_class e = JSONDecodeError \<or> exn_class e = KeyError then format_error e
           else (Inl (Uncaught e), s))
      | Loaded accounts_data \<Rightarrow>
          (case collect_accounts (case accounts_data of None \<Rightarrow> [] | Some rs \<Rightarrow> rs) of
             Inl e \<Rightarrow> format_error e
           | Inr acc \<Rightarrow> (Inr acc, s)))"

definition load_proxies :: "files \<Rightarrow> state \<Rightarrow> (abort + string list) \<times> state" where
  "load_proxies f s =
     (case proxy_file f of
        Unreadable e \<Rightarrow>
          (if exn_class e = FileNotFoundError then
             (Inr [], print ''Warning: proxy.txt file does not exist'' s)
           else (Inl (Uncaught e), s))
      | Loaded file_lines \<Rightarrow>
          (Inr (filter (\<lambda>l. l \<noteq> [] \<and> \<not> startswith l ''#'') (map strip file_lines)), s))"

text \<open>
  \<^verbatim>\<open>__init__\<close> up to the three loaders, in its order: \<^verbatim>\<open>load_config\<close> runs first, when
  \<^verbatim>\<open>self.logger\<close> does not exist yet. (\<^verbatim>\<open>UserAgent()\<close> and \<^verbatim>\<open>setup_logging\<close> follow.)
  The parsed \<^verbatim>\<open>headers\<close> dictionary becomes an object on the heap.
\<close>

definition store_config :: "config_json \<Rightarrow> state \<Rightarrow> state" where
  "store_config c s =
     (case j_headers c of
        None \<Rightarrow>
          s\<lparr>config := \<lparr>retry_times = j_retry_times c, retry_delay = j_retry_delay c,
                        headers = None, api_url = j_api_url c\<rparr>\<rparr>
      | Some d \<Rightarrow>
          s\<lparr>config := \<lparr>retry_times = j_retry_times c, retry_delay = j_retry_delay c,
                        headers = Some (length (heap s)), api_url = j_api_url c\<rparr>,
            heap := heap s @ [d]\<rparr>)"

definition init :: "string \<Rightarrow> files \<Rightarrow> state \<Rightarrow> abort option \<times> state" where
  "init config_path f s =
     (case load_config False config_path f s of
        (Inl ab, s1) \<Rightarrow> (Some ab, s1)
      | (Inr c, s1) \<Rightarrow>
     (case load_accounts f (store_config c s1) of
        (Inl ab, s2) \<Rightarrow> (Some ab, s2)
      | (Inr acc, s2) \<Rightarrow>
     (case load_proxies f (s2\<lparr>accounts := acc\<rparr>) of
        (Inl ab, s3) \<Rightarrow> (Some ab, s3)
      | (Inr ps, s3) \<Rightarrow> (None, s3\<lparr>proxies := ps\<rparr>))))"

subsection \<open>Reading a trace\<close>

text \<open>
  The network and timing skeleton of a trace: the requests and the sleeps, in order, without
  the log records. \<open>unchanged s s'\<close> says that \<open>s'\<close> has the configuration, the accounts
  and the proxy list of \<open>s\<close>, and that every dictionary object of \<open>s\<close> is still there with
  the same content (new objects may follow).
\<close>

datatype mark = Probed | Posted | Slept rat

fun mark_of :: "event \<Rightarrow> mark list" where
  "mark_of (Get url hdrs proxy timeout) = [Probed]"
| "mark_of (Post url hdrs date proxy timeout) = [Posted]"
| "mark_of (Sleep d) = [Slept d]"
| "mark_of (Log lvl msg) = []"
| "mark_of (Print msg) = []"

definition marks :: "event list \<Rightarrow> mark list" where
  "marks tr = concat (map mark_of tr)"

definition unchanged :: "state \<Rightarrow> state \<Rightarrow> bool" where
  "unchanged s s' =
     (config s' = config s \<and> accounts s' = accounts s \<and> proxies s' = proxies s
      \<and> prefix (heap s) (heap s'))"


subsection \<open>The orchestrator as the specification words it\<close>

text \<open>
  The specification's Run Orchestrator: the accounts are taken in list order, each one is
  signed in from the state its predecessor and the pause after it left, and the verdicts
  are collected. \<open>outcomes\<close> is that list of verdicts; the aggregate is its number of
  successes. It is compared below with the counter the loop of the source keeps.
\<close>

definition pause :: "state \<Rightarrow> state" where
  "pause s = (case random_uniform 2 5 s of (d, s') \<Rightarrow> sleep d s')"



section \<open>Example inputs\<close>

text \<open>Concrete hosts, states and accounts at which the properties below are evaluated.\<close>

definition ex_host :: host where
  "ex_host =
     \<lparr>json_loads = (\<lambda>bs. Inl (Exn JSONDecodeError ''Expecting value'')),
      utcoffset = (\<lambda>t. 0), strftime_ymd = (\<lambda>d. ''2026-11-04'')\<rparr>"

definition ok_response :: response where
  "ok_response = \<lparr>status_code = 200, body_json = Some ''[{'result': 'ok'}]'', body_text = ''[{}]''\<rparr>"

definition ex_state :: state where
  "ex_state =
     \<lparr>config = \<lparr>retry_times = None, retry_delay = None, headers = Some 0,
                 api_url = Some ''https://app.piggycell.io/api/trpc/checkin?batch=1''\<rparr>,
      accounts = [], proxies = [], heap = [[(''accept'', ''*/*'')]],
      net = (\<lambda>n. Resp ok_response), rand = (\<lambda>n. 0), ua = (\<lambda>n. None),
      clock = (\<lambda>n. 1700000000000000), trace = []\<rparr>"

definition acct_placeholder :: account where
  "acct_placeholder =
     \<lparr>name = ''alice'', session_token = ''your_session_token_here'', cookies = [],
      description = []\<rparr>"

definition acct_plain :: account where
  "acct_plain = \<lparr>name = ''bob'', session_token = ''tok123'', cookies = ''theme=dark'', description = ''main''\<rparr>"

definition timeout_error :: exn where
  "timeout_error = Exn RequestException ''Read timed out''"

definition reject_response :: response where
  "reject_response = \<lparr>status_code = 503, body_json = None, body_text = ''Service Unavailable''\<rparr>"





definition acct_carol :: account where
  "acct_carol = \<lparr>name = ''carol'', session_token = ''abc.def'', cookies = [], description = []\<rparr>"

definition st_three :: state where
  "st_three = ex_state\<lparr>accounts := [acct_plain, acct_placeholder, acct_carol]\<rparr>"

definition raw_four :: "raw_account list" where
  "raw_four =
     [\<lparr>r_name = Some ''bob'', r_session_token = Some ''tok123'', r_enabled = None,
        r_cookies = Some ''theme=dark'', r_description = Some ''main''\<rparr>,
      \<lparr>r_name = Some ''dave'', r_session_token = Some ''tok456'', r_enabled = Some False,
        r_cookies = None, r_description = None\<rparr>,
      \<lparr>r_name = Some ''alice'', r_session_token = Some ''your_session_token_here'',
        r_enabled = Some True, r_cookies = None, r_description = None\<rparr>,
      \<lparr>r_name = Some ''carol'', r_session_token = Some ''abc.def'', r_enabled = None,
        r_cookies = None, r_description = None\<rparr>]"

definition acct_undecodable :: account where
  "acct_undecodable = \<lparr>name = ''erin'', session_token = ''abc.d.ef'', cookies = [], description = []\<rparr>"

definition acct_bad_utf8 :: account where
  "acct_bad_utf8 = \<lparr>name = ''frank'', session_token = ''a.gICA.b'', cookies = [], description = []\<rparr>"

definition host_strict_utf8 :: host where
  "host_strict_utf8 =
     \<lparr>json_loads = (\<lambda>bs. if \<exists>c \<in> set bs. 128 \<le> (of_char c :: nat)
                             then Inl (Exn UnicodeDecodeError ''invalid start byte'')
                             else Inl (Exn JSONDecodeError ''Expecting value'')),
      utcoffset = (\<lambda>t. 0), strftime_ymd = (\<lambda>d. ''2026-11-04'')\<rparr>"

definition st_rejected_probe :: state where
  "st_rejected_probe = ex_state\<lparr>net := (\<lambda>n. Resp reject_response)\<rparr>"

definition st_offline :: state where
  "st_offline = ex_state\<lparr>net := (\<lambda>n. Raises timeout_error)\<rparr>"


definition not_found :: exn where
  "not_found = Exn FileNotFoundError ''No such file or directory''"

definition files_no_config :: files where
  "files_no_config =
     \<lparr>config_file = Unreadable not_found, accounts_file = Loaded (Some raw_four),
      proxy_file = Loaded [''http://127.0.0.1:8080'']\<rparr>"


















definition acct_dst2 :: account where
  "acct_dst2 = \<lparr>name = ''lena'', session_token = ''eyJhbGciOiJIUzI1NiJ9.eyJleHAiOiAxNzkyODk3MjAwfQ.c2ln'',
                 cookies = [], description = []\<rparr>"

definition st_dst2 :: state where
  "st_dst2 = ex_state\<lparr>clock := (\<lambda>n. 1792882800000000)\<rparr>"

definition acct_quad :: account where
  "acct_quad = \<lparr>name = ''mona'', session_token = ''eyJhbGciOiJIUzI1NiJ9.eyJleHAiOjk5OTk5OTk5OTl9.c2ln'',
                 cookies = [], description = []\<rparr>"



section \<open>Properties\<close>

subsection \<open>Placeholder tokens\<close>

text \<open>
  Claim C3. For every account whose \<^verbatim>\<open>session_token\<close> is empty, starts with \<^verbatim>\<open>your\<close>, or
  contains \<^verbatim>\<open>session_token\<close> in any casing, \<^verbatim>\<open>check_token_validity\<close> returns false and
  the only effect is one warning in the log: no reply of the network is consumed and no
  request is sent, neither the probe nor the check-in, also when \<^verbatim>\<open>sign_in\<close> is the caller
  (it adds one error line and returns false).
\<close>

theorem placeholder_token_rejected_offline:
  assumes "session_token a = [] \<or> startswith (session_token a) ''your''
           \<or> contains (lower (session_token a)) ''session_token''"
  shows "check_token_validity h a s =
           (False, logger WARNING
              (''Account '' @ name a @ '': token is placeholder, please update real session_token'') s)
         \<and> sign_in h a s =
           (False, logger ERROR (''Account '' @ name a @ '' token invalid or expiring soon, skipping'')
              (logger WARNING
                 (''Account '' @ name a @ '': token is placeholder, please update real session_token'') s))"
  using assms
  by (simp add: sign_in_def check_token_validity_def check_token_body_def is_placeholder_def)

theorem placeholder_token_rejected_offline_witness:
  "startswith (session_token acct_placeholder) ''your''
   \<and> check_token_validity ex_host acct_placeholder ex_state =
      (False, ex_state\<lparr>trace :=
         [Log WARNING ''Account alice: token is placeholder, please update real session_token'']\<rparr>)
   \<and> net (snd (sign_in ex_host acct_placeholder ex_state)) = net ex_state
   \<and> trace (snd (sign_in ex_host acct_placeholder ex_state)) =
       [Log WARNING ''Account alice: token is placeholder, please update real session_token'',
        Log ERROR ''Account alice token invalid or expiring soon, skipping'']"
proof -
  have h: "startswith (session_token acct_placeholder) ''your''"
    by (simp add: acct_placeholder_def startswith_def)
  show ?thesis
    using h placeholder_token_rejected_offline [of acct_placeholder ex_host ex_state]
    by (simp add: logger_def acct_placeholder_def ex_state_def)
qed

subsection \<open>Effects of the primitive operations\<close>

text \<open>
  What each operation does to each field of the state, and two facts used throughout:
  \<open>marks\<close> distributes over traces, and \<open>unchanged\<close> is a preorder.
\<close>

lemma marks_append [simp]: "marks (xs @ ys) = marks xs @ marks ys"
  by (simp add: marks_def)

lemma marks_simps [simp]:
  "marks [] = []"
  "marks (Log l m # tr) = marks tr"
  "marks (Print m # tr) = marks tr"
  "marks (Sleep d # tr) = Slept d # marks tr"
  "marks (Get u hs p t # tr) = Probed # marks tr"
  "marks (Post u hs dt p t # tr) = Posted # marks tr"
  by (simp_all add: marks_def)

lemma unchanged_refl [simp]: "unchanged s s"
  by (simp add: unchanged_def)

lemma unchanged_trans: "unchanged s s1 \<Longrightarrow> unchanged s1 s2 \<Longrightarrow> unchanged s s2"
  by (auto simp: unchanged_def)

lemma build_headers_effect:
  "config (snd (build_headers a s)) = config s"
  "accounts (snd (build_headers a s)) = accounts s"
  "proxies (snd (build_headers a s)) = proxies s"
  "net (snd (build_headers a s)) = net s"
  "trace (snd (build_headers a s)) = trace s"
  "clock (snd (build_headers a s)) = clock s"
  "prefix (heap s) (heap (snd (build_headers a s)))"
  by (auto simp: build_headers_def dict_copy_def dict_setitem_def get_random_user_agent_def
        random_choice_def next_rand_def split: option.splits prod.splits)

lemma build_headers_result:
  "fst (build_headers a s) = (case headers (config s) of None \<Rightarrow> Inl (Exn KeyError ''headers'')
      | Some b \<Rightarrow> Inr (length (heap s), fst (get_random_user_agent (snd (dict_copy b s)))))"
  by (auto simp: build_headers_def dict_copy_def dict_setitem_def get_random_user_agent_def
        random_choice_def next_rand_def split: option.splits prod.splits)

lemma get_random_proxy_effect:
  "config (snd (get_random_proxy s)) = config s"
  "accounts (snd (get_random_proxy s)) = accounts s"
  "proxies (snd (get_random_proxy s)) = proxies s"
  "net (snd (get_random_proxy s)) = net s"
  "trace (snd (get_random_proxy s)) = trace s"
  "clock (snd (get_random_proxy s)) = clock s"
  "heap (snd (get_random_proxy s)) = heap s"
  by (auto simp: get_random_proxy_def random_choice_def next_rand_def split: option.splits prod.splits)



lemma marks_on_200 [simp]: "marks (on_200 a r) = []"
  by (simp add: on_200_def split: option.splits)

lemma logger_effect [simp]:
  "config (logger l m s) = config s" "accounts (logger l m s) = accounts s"
  "proxies (logger l m s) = proxies s" "heap (logger l m s) = heap s"
  "net (logger l m s) = net s" "clock (logger l m s) = clock s"
  "trace (logger l m s) = trace s @ [Log l m]"
  by (simp_all add: logger_def)

lemma sleep_effect [simp]:
  "config (sleep d s) = config s" "accounts (sleep d s) = accounts s"
  "proxies (sleep d s) = proxies s" "heap (sleep d s) = heap s"
  "net (sleep d s) = net s" "clock (sleep d s) = clock s"
  "trace (sleep d s) = trace s @ [Sleep d]"
  by (simp_all add: sleep_def)

lemma datetime_now_effect [simp]:
  "config (snd (datetime_now h s)) = config s" "accounts (snd (datetime_now h s)) = accounts s"
  "proxies (snd (datetime_now h s)) = proxies s" "heap (snd (datetime_now h s)) = heap s"
  "net (snd (datetime_now h s)) = net s"
  "trace (snd (datetime_now h s)) = trace s"
  "fst (datetime_now h s) = to_local h (clock s 0)"
  by (simp_all add: datetime_now_def)

lemma session_post_effect [simp]:
  "config (snd (session_post u hs d p t s)) = config s"
  "accounts (snd (session_post u hs d p t s)) = accounts s"
  "proxies (snd (session_post u hs d p t s)) = proxies s"
  "heap (snd (session_post u hs d p t s)) = heap s"
  "net (snd (session_post u hs d p t s)) = (\<lambda>n. net s (Suc n))"
  "trace (snd (session_post u hs d p t s)) = trace s @ [Post u hs d p t]"
  "fst (session_post u hs d p t s) = net s 0"
  by (simp_all add: session_post_def)

lemma session_get_effect [simp]:
  "config (snd (session_get u hs p t s)) = config s"
  "accounts (snd (session_get u hs p t s)) = accounts s"
  "proxies (snd (session_get u hs p t s)) = proxies s"
  "heap (snd (session_get u hs p t s)) = heap s"
  "net (snd (session_get u hs p t s)) = (\<lambda>n. net s (Suc n))"
  "trace (snd (session_get u hs p t s)) = trace s @ [Get u hs p t]"
  "fst (session_get u hs p t s) = net s 0"
  by (simp_all add: session_get_def)

lemma random_uniform_effect [simp]:
  "config (snd (random_uniform x y s)) = config s"
  "accounts (snd (random_uniform x y s)) = accounts s"
  "proxies (snd (random_uniform x y s)) = proxies s"
  "heap (snd (random_uniform x y s)) = heap s"
  "net (snd (random_uniform x y s)) = net s"
  "trace (snd (random_uniform x y s)) = trace s"
  by (simp_all add: random_uniform_def next_rand_def)

declare build_headers_effect [simp] get_random_proxy_effect [simp]

lemma try_request_frame: "unchanged s (snd (try_request h a i s))"
  by (simp add: try_request_def unchanged_def Let_def case_prod_beta
        split: sum.splits option.splits reply.splits)



lemma attempt_once_frame: "unchanged s (snd (attempt_once h a rt rd i s))"
  using try_request_frame [of s h a i]
  by (simp add: attempt_once_def unchanged_def case_prod_beta split: sum.splits)






lemma attempts_frame: "unchanged s (snd (attempts h a rt rd js s))"
proof (induction js arbitrary: s)
  case Nil
  then show ?case by simp
next
  case (Cons j js)
  show ?case
    using attempt_once_frame [of s h a rt rd j] Cons [of "snd (attempt_once h a rt rd j s)"]
    by (auto simp: case_prod_beta split: step.splits intro: unchanged_trans)
qed

lemma test_token_frame: "unchanged s (snd (test_token_with_api h a s))"
  by (simp add: test_token_with_api_def unchanged_def case_prod_beta
        split: sum.splits reply.splits)

lemma inspect_payload_frame: "unchanged s (snd (inspect_payload h a p s))"
  by (simp add: inspect_payload_def unchanged_def case_prod_beta Let_def
        split: sum.splits bool.splits)

lemma unchanged_logger [simp]: "unchanged s (logger l m s') = unchanged s s'"
  by (simp add: unchanged_def)

lemma unchanged_sleep [simp]: "unchanged s (sleep d s') = unchanged s s'"
  by (simp add: unchanged_def)

lemma check_token_body_frame: "unchanged s (snd (check_token_body h a s))"
proof -
  let ?p = "pad_payload (split_str CHR ''.'' (session_token a) ! 1)"
  let ?s1 = "snd (inspect_payload h a ?p s)"
  have 1: "unchanged s (snd (test_token_with_api h a s))" by (rule test_token_frame)
  have 2: "unchanged s ?s1" by (rule inspect_payload_frame)
  have 3: "unchanged s (snd (test_token_with_api h a ?s1))"
    using 2 test_token_frame [of ?s1 h a] by (rule unchanged_trans)
  show ?thesis
    using 1 2 3
    by (simp add: check_token_body_def Let_def case_prod_beta split: sum.splits)
qed

lemma check_token_validity_frame: "unchanged s (snd (check_token_validity h a s))"
  using check_token_body_frame [of s h a]
  by (simp add: check_token_validity_def unchanged_def case_prod_beta split: sum.splits)

lemma sign_in_frame: "unchanged s (snd (sign_in h a s))"
proof -
  let ?s1 = "snd (check_token_validity h a s)"
  have 1: "unchanged s ?s1" by (rule check_token_validity_frame)
  have 2: "unchanged s (logger l m ?s1)" for l m
    using 1 by (simp add: unchanged_def)
  have 3: "unchanged s (snd (attempts h a rt rd js ?s1))" for rt rd js
    using 1 attempts_frame [of ?s1 h a rt rd js] by (rule unchanged_trans)
  show ?thesis
    using 2 3 by (simp add: sign_in_def Let_def case_prod_beta split: bool.splits)
qed



subsection \<open>The retry policy of \<^verbatim>\<open>sign_in\<close>\<close>








subsection \<open>A response with status 200\<close>



subsection \<open>What the methods leave unchanged\<close>

lemma pause_effect [simp]:
  "config (pause s) = config s" "accounts (pause s) = accounts s"
  "proxies (pause s) = proxies s" "heap (pause s) = heap s" "net (pause s) = net s"
  by (simp_all add: pause_def case_prod_beta)

lemma unchanged_pause [simp]: "unchanged s (pause s') = unchanged s s'"
  by (simp add: unchanged_def)

lemma accounts_loop_step:
  "accounts_loop h (a # rest) c s =
     accounts_loop h rest (if fst (sign_in h a s) then c + 1 else c) (pause (snd (sign_in h a s)))"
  by (simp add: pause_def case_prod_beta)

lemma accounts_loop_frame: "unchanged s (snd (accounts_loop h xs c s))"
proof (induction xs arbitrary: c s)
  case Nil
  then show ?case by simp
next
  case (Cons a xs)
  have "unchanged s (pause (snd (sign_in h a s)))"
    using sign_in_frame [of s h a] by simp
  then show ?case
    unfolding accounts_loop_step
    using Cons unchanged_trans by blast
qed

lemma sign_in_all_accounts_frame: "unchanged s (sign_in_all_accounts h s)"
proof -
  let ?s0 = "logger INFO (''Starting check-in for '' @ str_nat (length (accounts s)) @ '' accounts'') s"
  have "unchanged s ?s0" by simp
  then have "unchanged s (snd (accounts_loop h (accounts s) 0 ?s0))"
    using accounts_loop_frame unchanged_trans by blast
  then show ?thesis
    by (simp add: sign_in_all_accounts_def case_prod_beta)
qed

text \<open>
  Claim C9. Whatever the network, the clock and the random source answer, the state left by
  \<^verbatim>\<open>check_token_validity\<close>, \<^verbatim>\<open>test_token_with_api\<close>, \<^verbatim>\<open>sign_in\<close> or a whole pass of
  \<^verbatim>\<open>sign_in_all_accounts\<close> has the same account list, the same proxy list and the same
  configuration as the state it started from, and every dictionary object that existed
  before (the configured base headers among them) is still there with the same content:
  the request headers are written into objects allocated by \<^verbatim>\<open>copy()\<close>, which follow the
  old ones on the heap.
\<close>

theorem accounts_and_proxies_read_only:
  assumes "s' = snd (check_token_validity h a s) \<or> s' = snd (test_token_with_api h a s)
           \<or> s' = snd (sign_in h a s) \<or> s' = sign_in_all_accounts h s"
  shows "accounts s' = accounts s \<and> proxies s' = proxies s \<and> config s' = config s
         \<and> prefix (heap s) (heap s')"
proof -
  have "unchanged s s'"
    using assms check_token_validity_frame test_token_frame sign_in_frame
      sign_in_all_accounts_frame by blast
  then show ?thesis by (simp add: unchanged_def)
qed

subsection \<open>Which way \<^verbatim>\<open>check_token_validity\<close> goes\<close>

lemma length_split_str: "length (split_str c s) = count_char c s + 1"
  by (induction s) (auto simp: count_char_def split: list.splits)

lemma count_char_pos: "0 < count_char c s \<longleftrightarrow> c \<in> set s"
  by (induction s) (auto simp: count_char_def)

lemma check_token_plain:
  assumes "\<not> is_placeholder (session_token a)" "count_char CHR ''.'' (session_token a) < 2"
  shows "check_token_validity h a s = test_token_with_api h a s"
  using assms
  by (simp add: check_token_validity_def check_token_body_def Let_def case_prod_beta)

lemma test_token_result:
  assumes "headers (config s) = Some b" "net s 0 = Resp r"
  shows "fst (test_token_with_api h a s) = (status_code r = 200)"
  using assms
  by (simp add: test_token_with_api_def case_prod_beta build_headers_result
        split: sum.splits)

lemma test_token_fail_open:
  assumes "headers (config s) = None \<or> (\<exists>e. net s 0 = Raises e)"
  shows "fst (test_token_with_api h a s) = True"
  using assms
  by (auto simp add: test_token_with_api_def case_prod_beta build_headers_result
        split: sum.splits option.splits)

lemma inspect_payload_raises:
  "fst (inspect_payload h a p s) = Inl x \<Longrightarrow> snd (inspect_payload h a p s) = s"
  by (auto simp add: inspect_payload_def case_prod_beta Let_def
        split: sum.splits bool.splits if_splits)

lemma test_token_rejects:
  "\<not> fst (test_token_with_api h a s) \<Longrightarrow> \<exists>r. net s 0 = Resp r \<and> status_code r \<noteq> 200"
  by (auto simp add: test_token_with_api_def case_prod_beta
        split: sum.splits reply.splits if_splits)

lemma check_token_dotted:
  assumes "\<not> is_placeholder (session_token a)" "2 \<le> count_char CHR ''.'' (session_token a)"
  shows "check_token_body h a s =
     (case inspect_payload h a (pad_payload (split_str CHR ''.'' (session_token a) ! 1)) s of
        (Inl e, s1) \<Rightarrow>
          (if exn_class e = BinasciiError \<or> exn_class e = JSONDecodeError then
             (case test_token_with_api h a s1 of (b, s2) \<Rightarrow> (Inr b, s2))
           else (Inl e, s1))
      | (Inr b, s1) \<Rightarrow> (Inr b, s1))"
proof -
  have "CHR ''.'' \<in> set (session_token a)"
    using assms(2) count_char_pos [of "CHR ''.''" "session_token a"] by simp
  then show ?thesis
    using assms by (simp add: check_token_body_def Let_def length_split_str)
qed

text \<open>
  Claim C5. Token validation fails open. The probe \<^verbatim>\<open>test_token_with_api\<close> returns true
  exactly when the GET is answered with status 200, and returns true when the GET raises
  any exception (or the request cannot even be built). \<^verbatim>\<open>check_token_validity\<close> is that
  probe for a token that is no placeholder and has fewer than two dots, and for one with
  two or more dots whose payload inspection raises \<^verbatim>\<open>binascii.Error\<close> or
  \<^verbatim>\<open>json.JSONDecodeError\<close>; when the inspection raises anything else, and generally when
  the body of the method raises, it returns true, logging the error and sending nothing.
  So it returns false only for a placeholder, for a probe answered with a status other
  than 200, or when the inspection itself returned false (the expiry case): never because
  of an error.
\<close>

theorem token_validation_fails_open:
  "(headers (config s) = Some b \<and> net s 0 = Resp r \<longrightarrow>
      fst (test_token_with_api h a s) = (status_code r = 200))
   \<and> (headers (config s) = None \<or> net s 0 = Raises e \<longrightarrow>
        fst (test_token_with_api h a s) = True)
   \<and> (\<not> is_placeholder (session_token a) \<and> count_char CHR ''.'' (session_token a) < 2 \<longrightarrow>
        check_token_validity h a s = test_token_with_api h a s)
   \<and> (\<not> is_placeholder (session_token a) \<and> 2 \<le> count_char CHR ''.'' (session_token a)
        \<and> fst (inspect_payload h a (pad_payload (split_str CHR ''.'' (session_token a) ! 1)) s) = Inl x \<longrightarrow>
        check_token_validity h a s =
          (if exn_class x = BinasciiError \<or> exn_class x = JSONDecodeError
           then test_token_with_api h a s
           else (True, logger ERROR (''Error checking token of '' @ name a @ '': '' @ exn_msg x) s)))
   \<and> (fst (check_token_body h a s) = Inl x \<longrightarrow> fst (check_token_validity h a s) = True)
   \<and> (\<not> fst (check_token_validity h a s) \<longrightarrow>
        is_placeholder (session_token a)
        \<or> (\<exists>r. net s 0 = Resp r \<and> status_code r \<noteq> 200)
        \<or> fst (inspect_payload h a (pad_payload (split_str CHR ''.'' (session_token a) ! 1)) s) = Inr False)"
proof (intro conjI impI)
  assume "headers (config s) = Some b \<and> net s 0 = Resp r"
  then show "fst (test_token_with_api h a s) = (status_code r = 200)"
    using test_token_result by blast
next
  assume "headers (config s) = None \<or> net s 0 = Raises e"
  then show "fst (test_token_with_api h a s) = True"
    using test_token_fail_open by blast
next
  assume "\<not> is_placeholder (session_token a) \<and> count_char CHR ''.'' (session_token a) < 2"
  then show "check_token_validity h a s = test_token_with_api h a s"
    using check_token_plain by blast
next
  let ?p = "pad_payload (split_str CHR ''.'' (session_token a) ! 1)"
  assume a: "\<not> is_placeholder (session_token a) \<and> 2 \<le> count_char CHR ''.'' (session_token a)
        \<and> fst (inspect_payload h a ?p s) = Inl x"
  then have s1: "snd (inspect_payload h a ?p s) = s"
    using inspect_payload_raises by blast
  have "check_token_body h a s =
          (if exn_class x = BinasciiError \<or> exn_class x = JSONDecodeError
           then (Inr (fst (test_token_with_api h a s)), snd (test_token_with_api h a s))
           else (Inl x, s))"
    using a s1 by (simp add: check_token_dotted case_prod_beta)
  then show "check_token_validity h a s =
          (if exn_class x = BinasciiError \<or> exn_class x = JSONDecodeError
           then test_token_with_api h a s
           else (True, logger ERROR (''Error checking token of '' @ name a @ '': '' @ exn_msg x) s))"
    by (simp add: check_token_validity_def)
next
  assume "fst (check_token_body h a s) = Inl x"
  then show "fst (check_token_validity h a s) = True"
    by (simp add: check_token_validity_def case_prod_beta)
next
  let ?p = "pad_payload (split_str CHR ''.'' (session_token a) ! 1)"
  assume no: "\<not> fst (check_token_validity h a s)"
  show "is_placeholder (session_token a)
        \<or> (\<exists>r. net s 0 = Resp r \<and> status_code r \<noteq> 200)
        \<or> fst (inspect_payload h a ?p s) = Inr False"
  proof (cases "is_placeholder (session_token a)")
    case True
    then show ?thesis by simp
  next
    case np: False
    show ?thesis
    proof (cases "count_char CHR ''.'' (session_token a) < 2")
      case True
      then have "\<not> fst (test_token_with_api h a s)"
        using no np by (simp add: check_token_plain)
      then show ?thesis using test_token_rejects by blast
    next
      case False
      then have d: "2 \<le> count_char CHR ''.'' (session_token a)" by simp
      show ?thesis
      proof (cases "fst (inspect_payload h a ?p s)")
        case (Inl x)
        then have s1: "snd (inspect_payload h a ?p s) = s"
          using inspect_payload_raises by blast
        have "\<not> fst (test_token_with_api h a s)"
          using no Inl s1
          by (simp add: check_token_validity_def check_token_dotted [OF np d] case_prod_beta
                split: if_splits)
        then show ?thesis using test_token_rejects by blast
      next
        case (Inr v)
        then have "v = False"
          using no
          by (simp add: check_token_validity_def check_token_dotted [OF np d] case_prod_beta)
        then show ?thesis using Inr by simp
      qed
    qed
  qed
qed

theorem token_validation_fails_open_witness:
  "headers (config st_rejected_probe) = Some 0
   \<and> net ex_state 0 = Resp ok_response \<and> status_code ok_response = 200
   \<and> fst (test_token_with_api ex_host acct_plain ex_state) = True
   \<and> net st_rejected_probe 0 = Resp reject_response \<and> status_code reject_response = 503
   \<and> fst (test_token_with_api ex_host acct_plain st_rejected_probe) = False
   \<and> net st_offline 0 = Raises timeout_error
   \<and> fst (test_token_with_api ex_host acct_plain st_offline) = True
   \<and> count_char CHR ''.'' (session_token acct_plain) = 0
   \<and> fst (check_token_validity ex_host acct_plain st_offline) = True
   \<and> fst (check_token_validity ex_host acct_plain st_rejected_probe) = False
   \<and> count_char CHR ''.'' (session_token acct_undecodable) = 2
   \<and> exn_class (projl (fst (inspect_payload ex_host acct_undecodable
         (pad_payload (split_str CHR ''.'' (session_token acct_undecodable) ! 1)) st_offline)))
       = BinasciiError
   \<and> check_token_validity ex_host acct_undecodable st_offline =
       test_token_with_api ex_host acct_undecodable st_offline
   \<and> count_char CHR ''.'' (session_token acct_bad_utf8) = 2
   \<and> check_token_validity host_strict_utf8 acct_bad_utf8 st_rejected_probe =
       (True, logger ERROR ''Error checking token of frank: invalid start byte'' st_rejected_probe)"
proof -
  have c: "headers (config ex_state) = Some 0" "headers (config st_rejected_probe) = Some 0"
    "net ex_state 0 = Resp ok_response" "net st_rejected_probe 0 = Resp reject_response"
    "net st_offline 0 = Raises timeout_error"
    "status_code ok_response = 200" "status_code reject_response = 503"
    by (simp_all add: ex_state_def st_rejected_probe_def st_offline_def ok_response_def
          reject_response_def)
  have p: "\<not> is_placeholder (session_token acct_plain)"
    "count_char CHR ''.'' (session_token acct_plain) = 0"
    "\<not> is_placeholder (session_token acct_undecodable)"
    "count_char CHR ''.'' (session_token acct_undecodable) = 2"
    "\<not> is_placeholder (session_token acct_bad_utf8)"
    "count_char CHR ''.'' (session_token acct_bad_utf8) = 2"
    by (simp_all add: is_placeholder_def startswith_def lower_def lower_char_def count_char_def
          acct_plain_def acct_undecodable_def acct_bad_utf8_def)
  have d1: "b64decode (pad_payload ''d'') =
            Inl (Exn BinasciiError
              ''Invalid base64-encoded string: number of data characters cannot be 1 more than a multiple of 4'')"
    by code_simp
  have d2: "b64decode (pad_payload ''gICA'') = Inr [CHR 0x80, CHR 0x80, CHR 0x80]"
    by code_simp
  have sp: "split_str CHR ''.'' (session_token acct_undecodable) ! 1 = ''d''"
    "split_str CHR ''.'' (session_token acct_bad_utf8) ! 1 = ''gICA''"
    by (simp_all add: acct_undecodable_def acct_bad_utf8_def)
  have i1: "fst (inspect_payload ex_host acct_undecodable
               (pad_payload (split_str CHR ''.'' (session_token acct_undecodable) ! 1)) st) =
            Inl (Exn BinasciiError
              ''Invalid base64-encoded string: number of data characters cannot be 1 more than a multiple of 4'')"
    for st
    unfolding sp d1 inspect_payload_def by simp
  have i2: "fst (inspect_payload host_strict_utf8 acct_bad_utf8
               (pad_payload (split_str CHR ''.'' (session_token acct_bad_utf8) ! 1)) st) =
            Inl (Exn UnicodeDecodeError ''invalid start byte'')"
    for st
    unfolding sp inspect_payload_def d2 by (simp add: host_strict_utf8_def)
  note t1 = token_validation_fails_open [where s = ex_state and b = 0 and r = ok_response
      and h = ex_host and a = acct_plain]
  note t2 = token_validation_fails_open [where s = st_rejected_probe and b = 0
      and r = reject_response and h = ex_host and a = acct_plain]
  note t3 = token_validation_fails_open [where s = st_offline and e = timeout_error
      and h = ex_host and a = acct_plain]
  note t4 = token_validation_fails_open [where s = st_offline and e = timeout_error
      and h = ex_host and a = acct_undecodable
      and x = "Exn BinasciiError
              ''Invalid base64-encoded string: number of data characters cannot be 1 more than a multiple of 4''"]
  note t5 = token_validation_fails_open [where s = st_rejected_probe
      and h = host_strict_utf8 and a = acct_bad_utf8
      and x = "Exn UnicodeDecodeError ''invalid start byte''"]
  have r1: "fst (test_token_with_api ex_host acct_plain ex_state) = True"
    using t1 c by simp
  have r2: "fst (test_token_with_api ex_host acct_plain st_rejected_probe) = False"
    "fst (check_token_validity ex_host acct_plain st_rejected_probe) = False"
    using t2 c p by simp_all
  have r3: "fst (test_token_with_api ex_host acct_plain st_offline) = True"
    "fst (check_token_validity ex_host acct_plain st_offline) = True"
    using t3 c p by simp_all
  have r4: "check_token_validity ex_host acct_undecodable st_offline =
       test_token_with_api ex_host acct_undecodable st_offline"
    using t4 p i1 by simp
  have r5: "check_token_validity host_strict_utf8 acct_bad_utf8 st_rejected_probe =
       (True, logger ERROR ''Error checking token of frank: invalid start byte'' st_rejected_probe)"
    using t5 p i2 by (simp add: acct_bad_utf8_def)
  show ?thesis
    using c p r1 r2 r3 r4 r5 i1 [of st_offline] by simp
qed

subsection \<open>Runs against a network that always gives the same answer\<close>


lemma net_inspect_payload [simp]: "net (snd (inspect_payload h a p s)) = net s"
  by (simp add: inspect_payload_def case_prod_beta Let_def split: sum.splits bool.splits)







subsection \<open>The orchestrator\<close>










text \<open>The read-only property at the same three-account pass, and the copy a probe makes.\<close>

theorem accounts_and_proxies_read_only_witness:
  "accounts (sign_in_all_accounts ex_host st_three) = [acct_plain, acct_placeholder, acct_carol]
   \<and> proxies (sign_in_all_accounts ex_host st_three) = []
   \<and> config (sign_in_all_accounts ex_host st_three) = config ex_state
   \<and> prefix [[(''accept'', ''*/*'')]] (heap (sign_in_all_accounts ex_host st_three))
   \<and> heap (snd (test_token_with_api ex_host acct_plain ex_state)) =
       [[(''accept'', ''*/*'')],
        [(''accept'', ''*/*''),
         (''user-agent'', user_agents ! 0),
         (''cookie'', ''__Secure-authjs.session-token=tok123; theme=dark'')]]"
proof -
  have "accounts (sign_in_all_accounts ex_host st_three) = accounts st_three
        \<and> proxies (sign_in_all_accounts ex_host st_three) = proxies st_three
        \<and> config (sign_in_all_accounts ex_host st_three) = config st_three
        \<and> prefix (heap st_three) (heap (sign_in_all_accounts ex_host st_three))"
    using accounts_and_proxies_read_only [of "sign_in_all_accounts ex_host st_three" ex_host acct_plain st_three]
    by simp
  moreover have "heap (snd (test_token_with_api ex_host acct_plain ex_state)) =
       [[(''accept'', ''*/*'')],
        [(''accept'', ''*/*''),
         (''user-agent'', user_agents ! 0),
         (''cookie'', ''__Secure-authjs.session-token=tok123; theme=dark'')]]"
    by (simp add: test_token_with_api_def build_headers_def dict_copy_def dict_setitem_def
          get_random_user_agent_def random_choice_def next_rand_def get_random_proxy_def
          session_get_def logger_def cookie_of_def case_prod_beta
          ex_state_def acct_plain_def ok_response_def user_agents_def)
  ultimately show ?thesis
    by (simp add: st_three_def ex_state_def)
qed

subsection \<open>Construction and the configuration files\<close>

lemma print_effect [simp]:
  "config (print m s) = config s" "accounts (print m s) = accounts s"
  "proxies (print m s) = proxies s" "heap (print m s) = heap s"
  "trace (print m s) = trace s @ [Print m]"
  by (simp_all add: print_def)






text \<open>
  Beyond the claims: whenever the main configuration file is missing or is not valid JSON,
  construction ends with the \<open>AttributeError\<close> raised inside the handler of
  \<^verbatim>\<open>load_config\<close>, in the state it started from: no log record, no \<^verbatim>\<open>sys.exit(1)\<close>.
\<close>

theorem logger_used_before_setup:
  "config_file f = Unreadable e \<Longrightarrow>
     exn_class e = FileNotFoundError \<or> exn_class e = JSONDecodeError \<Longrightarrow>
     init config_path f s =
       (Some (Uncaught (Exn AttributeError ''PiggyCellBot object has no attribute logger'')), s)"
  by (auto simp add: init_def load_config_def logger_error_def)

theorem logger_used_before_setup_witness:
  "config_file files_no_config = Unreadable not_found
   \<and> exn_class not_found = FileNotFoundError
   \<and> fst (init ''config/config.json'' files_no_config ex_state) =
       Some (Uncaught (Exn AttributeError ''PiggyCellBot object has no attribute logger''))
   \<and> trace (snd (init ''config/config.json'' files_no_config ex_state)) = []"
proof -
  have f: "config_file files_no_config = Unreadable not_found"
    "exn_class not_found = FileNotFoundError" "trace ex_state = []"
    by (simp_all add: files_no_config_def not_found_def ex_state_def)
  from logger_used_before_setup [OF f(1), of "''config/config.json''" ex_state] f
  show ?thesis by simp
qed

subsection \<open>The expiry field of a decodable token\<close>














end
